theory Spec2Isabelle
  imports Main
begin

section \<open>JavaScript values, objects and optional parameters\<close>

text \<open>
  The fields of a transaction request hold hex strings, addresses, numbers and bigints.
  Numbers are restricted to the integers, which is all that chain ids, nonces and fee
  fields hold.
\<close>

datatype jsval = JUndefined | JNull | JBool bool | JNumber int | JBigInt int | JString string

text \<open>
  A plain object is a finite map from property names to values. The spread
  \<open>{...a, ...b}\<close> is \<open>a ++ b\<close> (the right operand wins) and \<open>{...a, k: v}\<close> is
  \<open>a(k \<mapsto> v)\<close>.
\<close>

type_synonym obj = "string \<rightharpoonup> jsval"

text \<open>Reading a property: an absent property reads as \<open>undefined\<close>.\<close>

definition get_prop :: "obj \<Rightarrow> string \<Rightarrow> jsval" where
  "get_prop ob k = (case ob k of None \<Rightarrow> JUndefined | Some x \<Rightarrow> x)"

text \<open>An optional parameter is \<open>undefined\<close>, \<open>null\<close> or a value.\<close>

datatype 'a js_opt = Js_undefined | Js_null | Js_value 'a

section \<open>Accounts, chains, clients and arguments\<close>

record account =
  address :: string
  acc_type :: string

text \<open>The \<open>account\<close> argument is \<open>Account | Address\<close>.\<close>

datatype account_arg = Address string | Account account

text \<open>
  \<open>parseAccount\<close> of viem: an address string becomes a JSON-RPC account, an account
  object is returned as it is.
\<close>

fun parseAccount :: "account_arg \<Rightarrow> account" where
  "parseAccount (Address a) = \<lparr>address = a, acc_type = ''json-rpc''\<rparr>"
| "parseAccount (Account acc) = acc"

text \<open>The second argument of the chain's serializer: the ECDSA components.\<close>

record signature =
  sig_r :: string
  sig_s :: string
  sig_v :: int

datatype error =
    AccountNotFoundError
  | BaseError string
  | ChainNotFoundError
  | ChainMismatchError
  | TypeError
  | SyntaxError
  | ExternalError string

text \<open>
  A chain (\<open>ChainEIP712\<close>) with the three members the pipeline reads: \<open>chain.id\<close>,
  \<open>chain.custom?.getEip712Domain\<close> and \<open>chain.serializers?.transaction\<close>. A missing
  \<open>custom\<close> or \<open>serializers\<close> object and a missing function inside it both read as
  falsy through the optional chaining, so each is \<open>None\<close> here.
\<close>

record chain =
  chain_id :: int
  getEip712Domain :: "(obj \<Rightarrow> error + obj) option"
  serializers_transaction :: "(obj \<Rightarrow> signature \<Rightarrow> error + string) option"

record client =
  client_account :: "account js_opt"
  client_chain :: "chain js_opt"

record signer_client =
  signer_account :: account

text \<open>
  \<open>const {account, chain, ...transaction} = args\<close>: the two named members and the rest.
\<close>

record args =
  args_account :: "account_arg js_opt"
  args_chain :: "chain js_opt"
  args_transaction :: obj

section \<open>Collaborators and the trace of their calls\<close>

record read_request =
  req_address :: string
  req_functionName :: string
  req_args :: "bool list"

datatype abi_val = V_bytes string | V_address string | V_bytes_array "string list"

text \<open>
  Every call that leaves the function is recorded, with its arguments, in the order in
  which the function makes it.
\<close>

datatype event =
    GetChainId
  | GetEip712Domain obj
  | SignTypedData obj account
  | ReadContract read_request
  | EncodeAbiParameters "string list" "abi_val list"
  | SerializeTransaction obj signature

text \<open>
  What the collaborators answer during one call. \<open>VALID_CHAINS\<close> (the keys of the
  registry in \<open>../utils.js\<close>) and \<open>assertEip712Request\<close> (\<open>../eip712.js\<close>) belong to this
  repository but their text is not available, so they are parameters: the registry by the
  chain ids it has an entry for, the assertion by the error it raises, if any.
  \<open>getChainId\<close>, \<open>signTypedData\<close>, \<open>readContract\<close> and \<open>encodeAbiParameters\<close> are
  viem's.
\<close>

record env =
  VALID_CHAINS :: "int list"
  assertEip712Request :: "account \<Rightarrow> chain js_opt \<Rightarrow> obj \<Rightarrow> error option"
  getChainId :: "error + int"
  signTypedData :: "obj \<Rightarrow> account \<Rightarrow> error + string"
  readContract :: "read_request \<Rightarrow> error + string list"
  encodeAbiParameters :: "string list \<Rightarrow> abi_val list \<Rightarrow> error + string"

text \<open>
  A step of the pipeline yields the calls it made and either the error it raised or its
  value. Sequencing stops at the first error and keeps the calls made so far.
\<close>

type_synonym 'a step = "event list \<times> (error + 'a)"

definition throw :: "error \<Rightarrow> 'a step" where
  "throw e = ([], Inl e)"

definition done_with :: "'a \<Rightarrow> 'a step" where
  "done_with x = ([], Inr x)"

definition call :: "event \<Rightarrow> error + 'a \<Rightarrow> 'a step" where
  "call ev answer = ([ev], answer)"

definition and_then :: "'a step \<Rightarrow> ('a \<Rightarrow> 'b step) \<Rightarrow> 'b step" where
  "and_then m f =
     (case m of
        (t, Inl e) \<Rightarrow> (t, Inl e)
      | (t, Inr x) \<Rightarrow> (case f x of (t', r) \<Rightarrow> (t @ t', r)))"

definition check :: "error option \<Rightarrow> unit step" where
  "check r = (case r of None \<Rightarrow> done_with () | Some e \<Rightarrow> throw e)"

section \<open>Normalising the numeric fields\<close>

text \<open>
  \<open>isHex\<close> and the hex-to-bigint conversion of viem: a hex string is \<open>0x\<close> followed by
  hexadecimal digits, and denotes the integer its digits spell.
\<close>

definition is_hex_digit :: "char \<Rightarrow> bool" where
  "is_hex_digit c =
     (let n = (of_char c :: nat)
      in (48 \<le> n \<and> n \<le> 57) \<or> (97 \<le> n \<and> n \<le> 102) \<or> (65 \<le> n \<and> n \<le> 70))"

definition hex_digit_value :: "char \<Rightarrow> int" where
  "hex_digit_value c =
     (let n = (of_char c :: nat)
      in if n \<le> 57 then int n - 48 else if 97 \<le> n then int n - 87 else int n - 55)"

definition isHex :: "jsval \<Rightarrow> bool" where
  "isHex x =
     (case x of
        JString s \<Rightarrow> take 2 s = ''0x'' \<and> list_all is_hex_digit (drop 2 s)
      | _ \<Rightarrow> False)"

definition hexToBigInt :: "string \<Rightarrow> int" where
  "hexToBigInt s = foldl (\<lambda>acc c. 16 * acc + hex_digit_value c) 0 (drop 2 s)"

text \<open>
  Modelled from the spec: the coercion of one field by \<open>transformHexValues\<close>, whose text
  (\<open>../utils.js\<close>) is not available. The spec says of the request that it is "normalized
  once (numeric fields coerced to a fixed-width integer type), otherwise immutable through
  the pipeline". A field holding a hex string is replaced by the integer it denotes; any
  other field (absent, or already a number) is left as it is.
\<close>

definition coerce_field :: "string \<Rightarrow> obj \<Rightarrow> obj" where
  "coerce_field k ob =
     (case get_prop ob k of
        JString s \<Rightarrow> if isHex (JString s) then ob(k \<mapsto> JBigInt (hexToBigInt s)) else ob
      | _ \<Rightarrow> ob)"

text \<open>
  Modelled from the spec: \<open>transformHexValues\<close> of \<open>../utils.js\<close>, whose text is not
  available. It coerces the listed fields of the request, one key after the other, and
  touches no other field.
\<close>

definition transformHexValues :: "obj \<Rightarrow> string list \<Rightarrow> obj" where
  "transformHexValues ob ks = fold coerce_field ks ob"

definition numeric_keys :: "string list" where
  "numeric_keys =
     [''value'', ''nonce'', ''maxFeePerGas'', ''maxPriorityFeePerGas'', ''gas'', ''value'',
      ''chainId'', ''gasPerPubdata'']"

text \<open>
  The restricted variant normalises \<open>value\<close> alone:
  \<open>transaction.value ? BigInt(transaction.value) : 0n\<close>. \<open>falsy\<close> is JavaScript's
  truthiness test.
\<close>

definition falsy :: "jsval \<Rightarrow> bool" where
  "falsy x =
     (case x of
        JUndefined \<Rightarrow> True
      | JNull \<Rightarrow> True
      | JBool b \<Rightarrow> \<not> b
      | JNumber n \<Rightarrow> n = 0
      | JBigInt n \<Rightarrow> n = 0
      | JString s \<Rightarrow> s = [])"

text \<open>
  \<open>BigInt\<close> applied to a string (the language's \<open>StringToBigInt\<close>): white space is
  trimmed at both ends; what remains is empty (the value is 0), or decimal digits with an
  optional sign, or digits of base 16, 8 or 2 after \<open>0x\<close>, \<open>0o\<close>, \<open>0b\<close> (the letter in
  either case, no sign); anything else raises \<open>SyntaxError\<close>. A string is a sequence of
  code units below 256 here, so the white space that can occur is TAB, LF, VT, FF, CR,
  space and the no-break space.
\<close>

definition is_js_space :: "char \<Rightarrow> bool" where
  "is_js_space c = ((of_char c :: nat) \<in> {9, 10, 11, 12, 13, 32, 160})"

definition js_trim :: "string \<Rightarrow> string" where
  "js_trim s = rev (dropWhile is_js_space (rev (dropWhile is_js_space s)))"

definition digits_value :: "int \<Rightarrow> string \<Rightarrow> int" where
  "digits_value b s = foldl (\<lambda>acc c. b * acc + hex_digit_value c) 0 s"

definition parse_digits :: "int \<Rightarrow> string \<Rightarrow> error + int" where
  "parse_digits b s =
     (if s \<noteq> [] \<and> list_all (\<lambda>c. is_hex_digit c \<and> hex_digit_value c < b) s
      then Inr (digits_value b s)
      else Inl SyntaxError)"

definition StringToBigInt :: "string \<Rightarrow> error + int" where
  "StringToBigInt s =
     (let t = js_trim s; pre = take 2 t
      in if t = [] then Inr 0
         else if pre = ''0x'' \<or> pre = ''0X'' then parse_digits 16 (drop 2 t)
         else if pre = ''0o'' \<or> pre = ''0O'' then parse_digits 8 (drop 2 t)
         else if pre = ''0b'' \<or> pre = ''0B'' then parse_digits 2 (drop 2 t)
         else if hd t = CHR ''+'' then parse_digits 10 (tl t)
         else if hd t = CHR ''-'' then
           (case parse_digits 10 (tl t) of Inl e \<Rightarrow> Inl e | Inr n \<Rightarrow> Inr (- n))
         else parse_digits 10 t)"

text \<open>
  \<open>BigInt\<close> on the values of the model: \<open>undefined\<close> and \<open>null\<close> raise \<open>TypeError\<close>,
  a boolean is 0 or 1, an integral number and a bigint keep their value, a string is
  parsed.
\<close>

definition js_BigInt :: "jsval \<Rightarrow> error + int" where
  "js_BigInt x =
     (case x of
        JUndefined \<Rightarrow> Inl TypeError
      | JNull \<Rightarrow> Inl TypeError
      | JBool b \<Rightarrow> Inr (if b then 1 else 0)
      | JNumber n \<Rightarrow> Inr n
      | JBigInt n \<Rightarrow> Inr n
      | JString s \<Rightarrow> StringToBigInt s)"

section \<open>The pipeline\<close>

text \<open>\<open>!account_\<close>: \<open>undefined\<close>, \<open>null\<close> and the empty string are falsy.\<close>

definition no_account :: "account_arg js_opt \<Rightarrow> bool" where
  "no_account a = (case a of Js_value (Address s) \<Rightarrow> s = [] | Js_value (Account _) \<Rightarrow> False | _ \<Rightarrow> True)"

text \<open>\<open>account: account_ = client.account\<close>: the default applies to \<open>undefined\<close> only.\<close>

definition resolve_account :: "client \<Rightarrow> args \<Rightarrow> account_arg js_opt" where
  "resolve_account cl ar =
     (case args_account ar of
        Js_undefined \<Rightarrow>
          (case client_account cl of
             Js_undefined \<Rightarrow> Js_undefined
           | Js_null \<Rightarrow> Js_null
           | Js_value acc \<Rightarrow> Js_value (Account acc))
      | a \<Rightarrow> a)"

definition resolve_chain :: "client \<Rightarrow> args \<Rightarrow> chain js_opt" where
  "resolve_chain cl ar =
     (case args_chain ar of Js_undefined \<Rightarrow> client_chain cl | c \<Rightarrow> c)"

text \<open>
  \<open>assertCurrentChain\<close> of viem: \<open>ChainNotFoundError\<close> without a chain,
  \<open>ChainMismatchError\<close> when the current chain id is not the chain's.
\<close>

definition assertCurrentChain :: "int \<Rightarrow> chain js_opt \<Rightarrow> unit step" where
  "assertCurrentChain currentChainId ch =
     (case ch of
        Js_value c \<Rightarrow>
          if currentChainId \<noteq> chain_id c then throw ChainMismatchError else done_with ()
      | _ \<Rightarrow> throw ChainNotFoundError)"

text \<open>\<open>validationHookData[hook] ?? '0x'\<close> for every hook, in the order of the list.\<close>

definition hookData_of :: "(string \<rightharpoonup> string) \<Rightarrow> string list \<Rightarrow> string list" where
  "hookData_of validationHookData validationHooks =
     map (\<lambda>hook. case validationHookData hook of None \<Rightarrow> ''0x'' | Some d \<Rightarrow> d) validationHooks"

definition signature_types :: "string list" where
  "signature_types = [''bytes'', ''address'', ''bytes[]'']"

definition zero_signature :: signature where
  "zero_signature = \<lparr>sig_r = ''0x0'', sig_s = ''0x0'', sig_v = 0\<rparr>"

text \<open>The object handed to \<open>getEip712Domain\<close>: \<open>{...transaction, chainId, from, type}\<close>.\<close>

definition domain_request :: "obj \<Rightarrow> int \<Rightarrow> account \<Rightarrow> obj" where
  "domain_request transaction chainId fromAccount =
     transaction(''chainId'' \<mapsto> JNumber chainId,
                 ''from'' \<mapsto> JString (address fromAccount),
                 ''type'' \<mapsto> JString ''eip712'')"

text \<open>
  The object handed to the serializer:
  \<open>{chainId, ...transaction, from, customSignature, type}\<close>.
\<close>

definition serializer_request :: "obj \<Rightarrow> int \<Rightarrow> account \<Rightarrow> string \<Rightarrow> obj" where
  "serializer_request transaction chainId fromAccount sg =
     ([''chainId'' \<mapsto> JNumber chainId] ++ transaction)
       (''from'' \<mapsto> JString (address fromAccount),
        ''customSignature'' \<mapsto> JString sg,
        ''type'' \<mapsto> JString ''eip712'')"

text \<open>
  The read of the hook registry. Its \<open>address\<close> argument is \<open>client.account.address\<close>,
  which raises \<open>TypeError\<close> when the client has no account.
\<close>

definition listHooks :: "env \<Rightarrow> client \<Rightarrow> string list step" where
  "listHooks en cl =
     (case client_account cl of
        Js_value acc \<Rightarrow>
          (let rq = \<lparr>req_address = address acc, req_functionName = ''listHooks'',
                     req_args = [True]\<rparr>
           in call (ReadContract rq) (readContract en rq))
      | _ \<Rightarrow> throw TypeError)"

text \<open>
  The configurable variant (first file of the source, lines 29 to 137), step by step:
  destructuring and normalisation (41 to 57), the account check (59), the request assertion
  (66), the chain check (72), the two capability checks (76 to 79), the read of the chain
  id and its comparison with the declared chain (81 to 86), the domain (88), the signer
  (95), the composition of the signature (100 to 125) and the serializer (127 to 136).
\<close>

definition signTransaction ::
  "env \<Rightarrow> client \<Rightarrow> signer_client \<Rightarrow> args \<Rightarrow> string \<Rightarrow> bool \<Rightarrow> (string \<rightharpoonup> string)
     \<Rightarrow> string step" where
  "signTransaction en cl signerClient ar validator useSignerAddress validationHookData =
     (let account' = resolve_account cl ar;
          ch = resolve_chain cl ar;
          transaction =
            transformHexValues ((args_transaction ar)(''type'' \<mapsto> JString ''eip712''))
              numeric_keys
      in if no_account account' then throw AccountNotFoundError
         else
           (case account' of
              Js_value a \<Rightarrow>
                (let smartAccount = parseAccount a;
                     fromAccount =
                       (if useSignerAddress then signer_account signerClient else smartAccount)
                 in and_then (check (assertEip712Request en smartAccount ch transaction)) (\<lambda>_.
                    case ch of
                      Js_value c \<Rightarrow>
                        if chain_id c \<notin> set (VALID_CHAINS en)
                        then throw (BaseError ''Invalid chain specified'')
                        else
                          (case getEip712Domain c of
                             None \<Rightarrow> throw (BaseError ''`getEip712Domain` not found on chain.'')
                           | Some getDomain \<Rightarrow>
                          (case serializers_transaction c of
                             None \<Rightarrow>
                               throw (BaseError ''transaction serializer not found on chain.'')
                           | Some serialize \<Rightarrow>
                          and_then (call GetChainId (getChainId en)) (\<lambda>chainId.
                          and_then
                            (case ch of
                               Js_null \<Rightarrow> done_with ()
                             | _ \<Rightarrow> assertCurrentChain chainId ch) (\<lambda>_.
                          and_then
                            (let rq = domain_request transaction chainId fromAccount
                             in call (GetEip712Domain rq) (getDomain rq)) (\<lambda>eip712Domain.
                          and_then
                            (call (SignTypedData eip712Domain (signer_account signerClient))
                               (signTypedData en eip712Domain (signer_account signerClient)))
                            (\<lambda>rawSignature.
                          and_then
                            (if useSignerAddress then done_with rawSignature
                             else
                               and_then (listHooks en cl) (\<lambda>validationHooks.
                                 let vals =
                                       [V_bytes rawSignature, V_address validator,
                                        V_bytes_array
                                          (hookData_of validationHookData validationHooks)]
                                 in call (EncodeAbiParameters signature_types vals)
                                      (encodeAbiParameters en signature_types vals)))
                            (\<lambda>sg.
                          let rq = serializer_request transaction chainId fromAccount sg
                          in call (SerializeTransaction rq zero_signature)
                               (serialize rq zero_signature))))))))
                    | _ \<Rightarrow> throw (BaseError ''Invalid chain specified'')))
            | _ \<Rightarrow> throw AccountNotFoundError))"

text \<open>
  The restricted variant (second file of the source, lines 165 to 249). Its allow-list is
  the one chain \<open>abstractTestnet\<close> of viem, whose id is 11124. It takes no hook payloads
  and reads no hook registry.
\<close>

definition abstractTestnet_id :: int where
  "abstractTestnet_id = 11124"

definition ALLOWED_CHAINS :: "int list" where
  "ALLOWED_CHAINS = [abstractTestnet_id]"

definition normalize_value :: "obj \<Rightarrow> error + obj" where
  "normalize_value ob =
     (if falsy (get_prop ob ''value'') then Inr (ob(''value'' \<mapsto> JBigInt 0))
      else
        (case js_BigInt (get_prop ob ''value'') of
           Inl e \<Rightarrow> Inl e
         | Inr n \<Rightarrow> Inr (ob(''value'' \<mapsto> JBigInt n))))"

definition signTransaction_restricted ::
  "env \<Rightarrow> client \<Rightarrow> signer_client \<Rightarrow> args \<Rightarrow> string \<Rightarrow> bool \<Rightarrow> string step" where
  "signTransaction_restricted en cl signerClient ar validatorAddress useSignerAddress =
     (let account' = resolve_account cl ar;
          ch = resolve_chain cl ar
      in and_then
           ([], normalize_value ((args_transaction ar)(''type'' \<mapsto> JString ''eip712'')))
           (\<lambda>transaction.
         if no_account account' then throw AccountNotFoundError
         else
           (case account' of
              Js_value a \<Rightarrow>
                (let smartAccount = parseAccount a;
                     fromAccount =
                       (if useSignerAddress then signer_account signerClient else smartAccount)
                 in and_then (check (assertEip712Request en smartAccount ch transaction)) (\<lambda>_.
                    case ch of
                      Js_value c \<Rightarrow>
                        if chain_id c \<notin> set ALLOWED_CHAINS
                        then throw (BaseError ''Invalid chain specified'')
                        else
                          (case getEip712Domain c of
                             None \<Rightarrow> throw (BaseError ''`getEip712Domain` not found on chain.'')
                           | Some getDomain \<Rightarrow>
                          (case serializers_transaction c of
                             None \<Rightarrow>
                               throw (BaseError ''transaction serializer not found on chain.'')
                           | Some serialize \<Rightarrow>
                          and_then (call GetChainId (getChainId en)) (\<lambda>chainId.
                          and_then
                            (case ch of
                               Js_null \<Rightarrow> done_with ()
                             | _ \<Rightarrow> assertCurrentChain chainId ch) (\<lambda>_.
                          and_then
                            (let rq = domain_request transaction chainId fromAccount
                             in call (GetEip712Domain rq) (getDomain rq)) (\<lambda>eip712Domain.
                          and_then
                            (call (SignTypedData eip712Domain (signer_account signerClient))
                               (signTypedData en eip712Domain (signer_account signerClient)))
                            (\<lambda>rawSignature.
                          and_then
                            (if useSignerAddress then done_with rawSignature
                             else
                               (let vals =
                                      [V_bytes rawSignature, V_address validatorAddress,
                                       V_bytes_array []]
                                in call (EncodeAbiParameters signature_types vals)
                                     (encodeAbiParameters en signature_types vals)))
                            (\<lambda>sg.
                          let rq = serializer_request transaction chainId fromAccount sg
                          in call (SerializeTransaction rq zero_signature)
                               (serialize rq zero_signature))))))))
                    | _ \<Rightarrow> throw (BaseError ''Invalid chain specified'')))
            | _ \<Rightarrow> throw AccountNotFoundError)))"

text \<open>
  The checks that come before the chain is looked at (lines 59 to 70, and 183 to 198 in the
  restricted variant): an account is resolved and the request assertion raises nothing; in
  the restricted variant the \<open>BigInt\<close> conversion of \<open>value\<close> comes first.
\<close>

definition entry_checks_pass :: "env \<Rightarrow> client \<Rightarrow> args \<Rightarrow> bool" where
  "entry_checks_pass en cl ar =
     (case resolve_account cl ar of
        Js_value a \<Rightarrow>
          \<not> no_account (Js_value a) \<and>
          assertEip712Request en (parseAccount a) (resolve_chain cl ar)
            (transformHexValues ((args_transaction ar)(''type'' \<mapsto> JString ''eip712''))
               numeric_keys) = None
      | _ \<Rightarrow> False)"

definition entry_checks_pass_restricted :: "env \<Rightarrow> client \<Rightarrow> args \<Rightarrow> bool" where
  "entry_checks_pass_restricted en cl ar =
     (case normalize_value ((args_transaction ar)(''type'' \<mapsto> JString ''eip712'')) of
        Inl e \<Rightarrow> False
      | Inr transaction \<Rightarrow>
          (case resolve_account cl ar of
             Js_value a \<Rightarrow>
               \<not> no_account (Js_value a) \<and>
               assertEip712Request en (parseAccount a) (resolve_chain cl ar) transaction = None
           | _ \<Rightarrow> False))"

section \<open>A concrete network\<close>

text \<open>
  A chain, a client, a signer and collaborators on which the pipeline can be run. The
  domain function returns its argument, so the typed data shows what the domain was built
  from. The encoder frames every string by its length in unary, which makes it injective;
  it rejects an address that is not 42 characters long. The serializer puts a type byte
  before the custom signature.
\<close>

fun tally :: "string \<Rightarrow> string" where
  "tally [] = ''0''"
| "tally (c # cs) = CHR ''1'' # tally cs"

definition ex_frame :: "string \<Rightarrow> string" where
  "ex_frame s = tally s @ s"

definition ex_encode :: "string list \<Rightarrow> abi_val list \<Rightarrow> error + string" where
  "ex_encode tys vals =
     (case vals of
        [V_bytes b, V_address a, V_bytes_array hs] \<Rightarrow>
          if length a = 42
          then Inr (''0x'' @ ex_frame b @ ex_frame a @ concat (map ex_frame hs))
          else Inl (ExternalError ''InvalidAddressError'')
      | _ \<Rightarrow> Inl (ExternalError ''AbiEncodingLengthMismatchError''))"

definition ex_serialize :: "obj \<Rightarrow> signature \<Rightarrow> error + string" where
  "ex_serialize rq sg =
     (case rq ''customSignature'' of
        Some (JString s) \<Rightarrow> Inr (''0x71'' @ s)
      | _ \<Rightarrow> Inl (ExternalError ''InvalidSerializableTransactionError''))"

definition ex_domain :: "obj \<Rightarrow> error + obj" where
  "ex_domain rq = Inr rq"

definition ex_chain :: chain where
  "ex_chain =
     \<lparr>chain_id = 11124, getEip712Domain = Some ex_domain,
      serializers_transaction = Some ex_serialize\<rparr>"

definition ex_smart_account :: account where
  "ex_smart_account =
     \<lparr>address = ''0x1000000000000000000000000000000000000001'', acc_type = ''smart''\<rparr>"

definition ex_signer_account :: account where
  "ex_signer_account =
     \<lparr>address = ''0x2000000000000000000000000000000000000002'', acc_type = ''local''\<rparr>"

definition ex_client :: client where
  "ex_client = \<lparr>client_account = Js_value ex_smart_account, client_chain = Js_value ex_chain\<rparr>"

definition ex_signer :: signer_client where
  "ex_signer = \<lparr>signer_account = ex_signer_account\<rparr>"

definition ex_validator :: string where
  "ex_validator = ''0x3000000000000000000000000000000000000003''"

definition ex_hookData :: "string \<rightharpoonup> string" where
  "ex_hookData = [''0x4000000000000000000000000000000000000005'' \<mapsto> ''0x1234'']"

definition ex_hooks :: "string list" where
  "ex_hooks = [''0x4000000000000000000000000000000000000005'', ''0x4000000000000000000000000000000000000006'']"

definition ex_env :: "string list \<Rightarrow> env" where
  "ex_env hooks =
     \<lparr>VALID_CHAINS = [11124, 2741],
      assertEip712Request = (\<lambda>acc ch rq. None),
      getChainId = Inr 11124,
      signTypedData = (\<lambda>d acc. Inr ''0x1b''),
      readContract = (\<lambda>rq. Inr hooks),
      encodeAbiParameters = ex_encode\<rparr>"

definition ex_transaction :: obj where
  "ex_transaction =
     [''to'' \<mapsto> JString ''0x7000000000000000000000000000000000000004'',
      ''data'' \<mapsto> JString ''0x'',
      ''value'' \<mapsto> JString ''0x5'']"

definition ex_args_with :: "obj \<Rightarrow> args" where
  "ex_args_with t =
     \<lparr>args_account = Js_undefined, args_chain = Js_undefined, args_transaction = t\<rparr>"

text \<open>The request after normalisation, the composed signature and the calls of a run.\<close>

definition ex_normalized :: obj where
  "ex_normalized = ex_transaction(''type'' \<mapsto> JString ''eip712'', ''value'' \<mapsto> JBigInt 5)"

definition ex_composed :: "string list \<Rightarrow> string" where
  "ex_composed payloads =
     ''0x'' @ ex_frame ''0x1b'' @ ex_frame ex_validator @ concat (map ex_frame payloads)"

definition ex_read :: read_request where
  "ex_read =
     \<lparr>req_address = address ex_smart_account, req_functionName = ''listHooks'',
      req_args = [True]\<rparr>"

definition ex_trace_delegated :: "obj \<Rightarrow> string list \<Rightarrow> event list" where
  "ex_trace_delegated t payloads =
     [GetChainId,
      GetEip712Domain (domain_request t 11124 ex_smart_account),
      SignTypedData (domain_request t 11124 ex_smart_account) ex_signer_account,
      ReadContract ex_read,
      EncodeAbiParameters signature_types
        [V_bytes ''0x1b'', V_address ex_validator, V_bytes_array payloads],
      SerializeTransaction
        (serializer_request t 11124 ex_smart_account (ex_composed payloads)) zero_signature]"

definition ex_trace_direct :: "obj \<Rightarrow> event list" where
  "ex_trace_direct t =
     [GetChainId,
      GetEip712Domain (domain_request t 11124 ex_signer_account),
      SignTypedData (domain_request t 11124 ex_signer_account) ex_signer_account,
      SerializeTransaction
        (serializer_request t 11124 ex_signer_account ''0x1b'') zero_signature]"

definition ex_trace_restricted :: "obj \<Rightarrow> event list" where
  "ex_trace_restricted t =
     [GetChainId,
      GetEip712Domain (domain_request t 11124 ex_smart_account),
      SignTypedData (domain_request t 11124 ex_smart_account) ex_signer_account,
      EncodeAbiParameters signature_types
        [V_bytes ''0x1b'', V_address ex_validator, V_bytes_array []],
      SerializeTransaction
        (serializer_request t 11124 ex_smart_account (ex_composed [])) zero_signature]"

text \<open>Clients, chains and collaborators with which the pipeline stops early.\<close>

definition rejecting_env :: "error \<Rightarrow> env" where
  "rejecting_env e = (ex_env ex_hooks)\<lparr>assertEip712Request := (\<lambda>acc ch rq. Some e)\<rparr>"

definition bare_client :: client where
  "bare_client = \<lparr>client_account = Js_undefined, client_chain = Js_undefined\<rparr>"

definition client_on :: "chain \<Rightarrow> client" where
  "client_on c = \<lparr>client_account = Js_value ex_smart_account, client_chain = Js_value c\<rparr>"

section \<open>Supporting lemmas\<close>

lemmas step_defs =
  throw_def done_with_def call_def and_then_def check_def assertCurrentChain_def listHooks_def

lemmas hex_defs = isHex_def hexToBigInt_def is_hex_digit_def hex_digit_value_def

lemmas bigint_defs =
  js_BigInt_def StringToBigInt_def js_trim_def is_js_space_def parse_digits_def
  digits_value_def is_hex_digit_def hex_digit_value_def

lemmas resolve_defs = resolve_account_def resolve_chain_def no_account_def

lemmas ex_network_defs =
  ex_env_def ex_client_def ex_signer_def ex_args_with_def ex_chain_def ex_domain_def
  ex_serialize_def ex_encode_def ex_validator_def ex_composed_def ex_read_def

subsection \<open>Runs on the concrete network\<close>

lemma ex_normalize:
  "transformHexValues (ex_transaction(''type'' \<mapsto> JString ''eip712'')) numeric_keys =
     ex_normalized"
  by (simp add: transformHexValues_def numeric_keys_def coerce_field_def get_prop_def
      ex_transaction_def ex_normalized_def hex_defs)

lemma ex_normalize_value:
  "normalize_value (ex_transaction(''type'' \<mapsto> JString ''eip712'')) = Inr ex_normalized"
  by (simp add: normalize_value_def falsy_def bigint_defs get_prop_def
      ex_transaction_def ex_normalized_def)

lemma ex_hook_payloads: "hookData_of ex_hookData ex_hooks = [''0x1234'', ''0x'']"
  by (simp add: hookData_of_def ex_hookData_def ex_hooks_def)

lemma ex_run_delegated:
  assumes "transformHexValues (t(''type'' \<mapsto> JString ''eip712'')) numeric_keys = n"
  shows "signTransaction (ex_env hooks) ex_client ex_signer (ex_args_with t) ex_validator
           False vhd =
         (ex_trace_delegated n (hookData_of vhd hooks),
          Inr (''0x71'' @ ex_composed (hookData_of vhd hooks)))"
  using assms
  by (simp add: signTransaction_def resolve_defs step_defs Let_def ex_network_defs
      ex_trace_delegated_def serializer_request_def)

lemma ex_run_direct:
  assumes "transformHexValues (t(''type'' \<mapsto> JString ''eip712'')) numeric_keys = n"
  shows "signTransaction (ex_env hooks) ex_client ex_signer (ex_args_with t) ex_validator
           True vhd =
         (ex_trace_direct n, Inr ''0x710x1b'')"
  using assms
  by (simp add: signTransaction_def resolve_defs step_defs Let_def ex_network_defs
      ex_trace_direct_def serializer_request_def)

lemma ex_run_restricted:
  assumes "normalize_value (t(''type'' \<mapsto> JString ''eip712'')) = Inr n"
  shows "signTransaction_restricted (ex_env hooks) ex_client ex_signer (ex_args_with t)
           ex_validator False =
         (ex_trace_restricted n, Inr (''0x71'' @ ex_composed []))"
  using assms
  by (simp add: signTransaction_restricted_def resolve_defs step_defs Let_def ex_network_defs
      ex_trace_restricted_def ALLOWED_CHAINS_def abstractTestnet_id_def serializer_request_def)

section \<open>The composed signature\<close>



section \<open>The hook payload sequence\<close>






section \<open>Chain mismatch\<close>

text \<open>
  Claim C4. When the call has fetched the live chain id and it differs from the id of the
  declared chain, \<open>signTransaction\<close> raises \<open>ChainMismatchError\<close>; the read of the chain
  id is the only call made, so the signer is not invoked.
\<close>

theorem signTransaction_chain_mismatch:
  assumes "signTransaction en cl sc ar validator u vhd = (tr, res)"
    and "GetChainId \<in> set tr" and "getChainId en = Inr live"
    and "resolve_chain cl ar = Js_value c" and "live \<noteq> chain_id c"
  shows "res = Inl ChainMismatchError \<and> tr = [GetChainId] \<and>
         (\<forall>d acc. SignTypedData d acc \<notin> set tr)"
  using assms
  by (auto simp: signTransaction_def step_defs Let_def
      split: if_splits js_opt.splits option.splits sum.splits prod.splits)

theorem signTransaction_chain_mismatch_witness:
  "getChainId ((ex_env ex_hooks)\<lparr>getChainId := Inr 1\<rparr>) = Inr 1 \<and>
   resolve_chain ex_client (ex_args_with ex_transaction) = Js_value ex_chain \<and>
   1 \<noteq> chain_id ex_chain \<and>
   signTransaction ((ex_env ex_hooks)\<lparr>getChainId := Inr 1\<rparr>) ex_client ex_signer
     (ex_args_with ex_transaction) ex_validator False ex_hookData =
     ([GetChainId], Inl ChainMismatchError) \<and>
   (\<forall>d acc. SignTypedData d acc \<notin> set [GetChainId])"
proof -
  let ?en = "(ex_env ex_hooks)\<lparr>getChainId := Inr 1\<rparr>"
  let ?run = "signTransaction ?en ex_client ex_signer (ex_args_with ex_transaction)
                ex_validator False ex_hookData"
  have run: "?run = (fst ?run, snd ?run)" by simp
  have fetched: "GetChainId \<in> set (fst ?run)"
    by (simp add: signTransaction_def resolve_defs step_defs Let_def ex_network_defs)
  have live: "getChainId ?en = Inr 1" by (simp add: ex_env_def)
  have declared: "resolve_chain ex_client (ex_args_with ex_transaction) = Js_value ex_chain"
    by (simp add: resolve_chain_def ex_client_def ex_args_with_def)
  have differs: "1 \<noteq> chain_id ex_chain" by (simp add: ex_chain_def)
  from signTransaction_chain_mismatch [OF run fetched live declared differs]
  have "?run = ([GetChainId], Inl ChainMismatchError) \<and>
        (\<forall>d acc. SignTypedData d acc \<notin> set [GetChainId])"
    by (simp add: prod_eq_iff)
  with live declared differs show ?thesis by blast
qed

section \<open>The call of the serializer\<close>

text \<open>
  Claim C7. A successful call ends with one call of the chain's serializer, whose answer is
  the result. The request it is given carries the composed signature (the signer's answer
  in direct mode, the encoder's answer in delegated mode) in \<open>customSignature\<close>, and the
  ECDSA components it is given are \<open>r = 0x0\<close>, \<open>s = 0x0\<close>, \<open>v = 0\<close>.
\<close>

theorem signTransaction_serializer_call:
  assumes "signTransaction en cl sc ar validator u vhd = (tr, Inr out)"
  shows "\<exists>rq sg. tr \<noteq> [] \<and>
           last tr = SerializeTransaction rq \<lparr>sig_r = ''0x0'', sig_s = ''0x0'', sig_v = 0\<rparr> \<and>
           (\<forall>rq' sg'. SerializeTransaction rq' sg' \<in> set tr \<longrightarrow>
              rq' = rq \<and> sg' = \<lparr>sig_r = ''0x0'', sig_s = ''0x0'', sig_v = 0\<rparr>) \<and>
           rq ''customSignature'' = Some (JString sg) \<and>
           (if u
            then \<exists>d. SignTypedData d (signer_account sc) \<in> set tr \<and>
                     signTypedData en d (signer_account sc) = Inr sg
            else \<exists>vals. EncodeAbiParameters signature_types vals \<in> set tr \<and>
                     encodeAbiParameters en signature_types vals = Inr sg) \<and>
           (\<exists>c serialize. resolve_chain cl ar = Js_value c \<and>
              serializers_transaction c = Some serialize \<and>
              serialize rq \<lparr>sig_r = ''0x0'', sig_s = ''0x0'', sig_v = 0\<rparr> = Inr out)"
  using assms
  by (auto simp: signTransaction_def step_defs Let_def serializer_request_def
      zero_signature_def
      split: if_splits js_opt.splits option.splits sum.splits prod.splits)

theorem signTransaction_serializer_call_witness:
  "signTransaction (ex_env ex_hooks) ex_client ex_signer (ex_args_with ex_transaction)
     ex_validator False ex_hookData =
     (ex_trace_delegated ex_normalized [''0x1234'', ''0x''],
      Inr (''0x71'' @ ex_composed [''0x1234'', ''0x''])) \<and>
   last (ex_trace_delegated ex_normalized [''0x1234'', ''0x'']) =
     SerializeTransaction
       (serializer_request ex_normalized 11124 ex_smart_account
          (ex_composed [''0x1234'', ''0x'']))
       \<lparr>sig_r = ''0x0'', sig_s = ''0x0'', sig_v = 0\<rparr> \<and>
   ex_serialize
     (serializer_request ex_normalized 11124 ex_smart_account
        (ex_composed [''0x1234'', ''0x'']))
     \<lparr>sig_r = ''0x0'', sig_s = ''0x0'', sig_v = 0\<rparr> =
     Inr (''0x71'' @ ex_composed [''0x1234'', ''0x''])"
proof -
  let ?del = "ex_trace_delegated ex_normalized [''0x1234'', ''0x'']"
  let ?rq = "serializer_request ex_normalized 11124 ex_smart_account
               (ex_composed [''0x1234'', ''0x''])"
  have run: "signTransaction (ex_env ex_hooks) ex_client ex_signer (ex_args_with ex_transaction)
               ex_validator False ex_hookData =
             (?del, Inr (''0x71'' @ ex_composed [''0x1234'', ''0x'']))"
    using ex_run_delegated [OF ex_normalize, of ex_hooks ex_hookData]
    by (simp add: ex_hook_payloads)
  have final: "last ?del = SerializeTransaction ?rq zero_signature"
    by (simp add: ex_trace_delegated_def)
  have chain: "resolve_chain ex_client (ex_args_with ex_transaction) = Js_value ex_chain"
    by (simp add: resolve_chain_def ex_client_def ex_args_with_def)
  from signTransaction_serializer_call [OF run] final chain
  have "last ?del =
          SerializeTransaction ?rq \<lparr>sig_r = ''0x0'', sig_s = ''0x0'', sig_v = 0\<rparr> \<and>
        ex_serialize ?rq \<lparr>sig_r = ''0x0'', sig_s = ''0x0'', sig_v = 0\<rparr> =
          Inr (''0x71'' @ ex_composed [''0x1234'', ''0x''])"
    by (auto simp: ex_chain_def)
  with run show ?thesis by blast
qed

section \<open>The from address\<close>



section \<open>Unsupported chains and missing capabilities\<close>

text \<open>
  Claim C5, as amended. When no chain is declared, or the declared chain's id is not in the
  allow-list, the call fails without a single call to a collaborator: no network read, no
  signing. The error is that of the first check that fails, in the order of the code:
  \<open>AccountNotFoundError\<close> when no account is resolved, else what the request assertion
  raises, else \<open>Invalid chain specified\<close>. In the restricted variant the \<open>BigInt\<close>
  conversion of \<open>value\<close> comes before all of these. Both variants, each with its own
  allow-list.
\<close>

theorem signTransaction_invalid_chain:
  assumes "signTransaction en cl sc ar validator u vhd = (tr, res)"
    and "signTransaction_restricted en cl sc ar validator u = (tr', res')"
  shows "((\<forall>c. resolve_chain cl ar = Js_value c \<longrightarrow> chain_id c \<notin> set (VALID_CHAINS en)) \<longrightarrow>
            tr = [] \<and> (\<exists>e. res = Inl e) \<and>
            (no_account (resolve_account cl ar) \<longrightarrow> res = Inl AccountNotFoundError) \<and>
            (\<forall>a e. resolve_account cl ar = Js_value a \<and> \<not> no_account (Js_value a) \<and>
                    assertEip712Request en (parseAccount a) (resolve_chain cl ar)
                      (transformHexValues
                         ((args_transaction ar)(''type'' \<mapsto> JString ''eip712''))
                         numeric_keys) = Some e \<longrightarrow>
                    res = Inl e) \<and>
            (entry_checks_pass en cl ar \<longrightarrow>
               res = Inl (BaseError ''Invalid chain specified''))) \<and>
         ((\<forall>c. resolve_chain cl ar = Js_value c \<longrightarrow> chain_id c \<notin> set ALLOWED_CHAINS) \<longrightarrow>
            tr' = [] \<and> (\<exists>e. res' = Inl e) \<and>
            (\<forall>e. normalize_value ((args_transaction ar)(''type'' \<mapsto> JString ''eip712'')) =
                    Inl e \<longrightarrow> res' = Inl e) \<and>
            (\<forall>t. normalize_value ((args_transaction ar)(''type'' \<mapsto> JString ''eip712'')) =
                    Inr t \<and> no_account (resolve_account cl ar) \<longrightarrow>
                  res' = Inl AccountNotFoundError) \<and>
            (\<forall>t a e. normalize_value ((args_transaction ar)(''type'' \<mapsto> JString ''eip712'')) =
                        Inr t \<and>
                      resolve_account cl ar = Js_value a \<and> \<not> no_account (Js_value a) \<and>
                      assertEip712Request en (parseAccount a) (resolve_chain cl ar) t = Some e \<longrightarrow>
                      res' = Inl e) \<and>
            (entry_checks_pass_restricted en cl ar \<longrightarrow>
               res' = Inl (BaseError ''Invalid chain specified'')))"
proof -
  have configurable:
    "(\<forall>c. resolve_chain cl ar = Js_value c \<longrightarrow> chain_id c \<notin> set (VALID_CHAINS en)) \<longrightarrow>
            tr = [] \<and> (\<exists>e. res = Inl e) \<and>
            (no_account (resolve_account cl ar) \<longrightarrow> res = Inl AccountNotFoundError) \<and>
            (\<forall>a e. resolve_account cl ar = Js_value a \<and> \<not> no_account (Js_value a) \<and>
                    assertEip712Request en (parseAccount a) (resolve_chain cl ar)
                      (transformHexValues
                         ((args_transaction ar)(''type'' \<mapsto> JString ''eip712''))
                         numeric_keys) = Some e \<longrightarrow>
                    res = Inl e) \<and>
            (entry_checks_pass en cl ar \<longrightarrow>
               res = Inl (BaseError ''Invalid chain specified''))"
    using assms(1)
    by (cases "resolve_account cl ar")
       (auto simp: signTransaction_def step_defs Let_def entry_checks_pass_def
          split: if_splits js_opt.splits option.splits sum.splits prod.splits)
  have restricted:
    "(\<forall>c. resolve_chain cl ar = Js_value c \<longrightarrow> chain_id c \<notin> set ALLOWED_CHAINS) \<longrightarrow>
            tr' = [] \<and> (\<exists>e. res' = Inl e) \<and>
            (\<forall>e. normalize_value ((args_transaction ar)(''type'' \<mapsto> JString ''eip712'')) =
                    Inl e \<longrightarrow> res' = Inl e) \<and>
            (\<forall>t. normalize_value ((args_transaction ar)(''type'' \<mapsto> JString ''eip712'')) =
                    Inr t \<and> no_account (resolve_account cl ar) \<longrightarrow>
                  res' = Inl AccountNotFoundError) \<and>
            (\<forall>t a e. normalize_value ((args_transaction ar)(''type'' \<mapsto> JString ''eip712'')) =
                        Inr t \<and>
                      resolve_account cl ar = Js_value a \<and> \<not> no_account (Js_value a) \<and>
                      assertEip712Request en (parseAccount a) (resolve_chain cl ar) t = Some e \<longrightarrow>
                      res' = Inl e) \<and>
            (entry_checks_pass_restricted en cl ar \<longrightarrow>
               res' = Inl (BaseError ''Invalid chain specified''))"
    using assms(2)
    by (cases "resolve_account cl ar")
       (auto simp: signTransaction_restricted_def step_defs Let_def
          entry_checks_pass_restricted_def
          split: if_splits js_opt.splits option.splits sum.splits prod.splits)
  from configurable restricted show ?thesis by blast
qed

theorem signTransaction_invalid_chain_witness:
  "resolve_chain (client_on (ex_chain\<lparr>chain_id := 1\<rparr>)) (ex_args_with ex_transaction) =
     Js_value (ex_chain\<lparr>chain_id := 1\<rparr>) \<and>
   chain_id (ex_chain\<lparr>chain_id := 1\<rparr>) \<notin> set (VALID_CHAINS (ex_env ex_hooks)) \<and>
   chain_id (ex_chain\<lparr>chain_id := 1\<rparr>) \<notin> set ALLOWED_CHAINS \<and>
   entry_checks_pass (ex_env ex_hooks) (client_on (ex_chain\<lparr>chain_id := 1\<rparr>))
     (ex_args_with ex_transaction) \<and>
   entry_checks_pass_restricted (ex_env ex_hooks) (client_on (ex_chain\<lparr>chain_id := 1\<rparr>))
     (ex_args_with ex_transaction) \<and>
   signTransaction (ex_env ex_hooks) (client_on (ex_chain\<lparr>chain_id := 1\<rparr>)) ex_signer
     (ex_args_with ex_transaction) ex_validator False ex_hookData =
     ([], Inl (BaseError ''Invalid chain specified'')) \<and>
   signTransaction_restricted (ex_env ex_hooks) (client_on (ex_chain\<lparr>chain_id := 1\<rparr>))
     ex_signer (ex_args_with ex_transaction) ex_validator False =
     ([], Inl (BaseError ''Invalid chain specified'')) \<and>
   no_account (resolve_account bare_client (ex_args_with ex_transaction)) \<and>
   signTransaction (ex_env ex_hooks) bare_client ex_signer (ex_args_with ex_transaction)
     ex_validator False ex_hookData = ([], Inl AccountNotFoundError) \<and>
   signTransaction_restricted (ex_env ex_hooks) bare_client ex_signer
     (ex_args_with ex_transaction) ex_validator False = ([], Inl AccountNotFoundError) \<and>
   assertEip712Request (rejecting_env (ExternalError ''InvalidEip712TransactionError''))
     (parseAccount (Account ex_smart_account))
     (resolve_chain (client_on (ex_chain\<lparr>chain_id := 1\<rparr>)) (ex_args_with ex_transaction))
     ex_normalized = Some (ExternalError ''InvalidEip712TransactionError'') \<and>
   signTransaction (rejecting_env (ExternalError ''InvalidEip712TransactionError''))
     (client_on (ex_chain\<lparr>chain_id := 1\<rparr>)) ex_signer (ex_args_with ex_transaction)
     ex_validator False ex_hookData =
     ([], Inl (ExternalError ''InvalidEip712TransactionError'')) \<and>
   signTransaction_restricted (rejecting_env (ExternalError ''InvalidEip712TransactionError''))
     (client_on (ex_chain\<lparr>chain_id := 1\<rparr>)) ex_signer (ex_args_with ex_transaction)
     ex_validator False =
     ([], Inl (ExternalError ''InvalidEip712TransactionError'')) \<and>
   normalize_value (ex_transaction(''value'' \<mapsto> JString ''1e3'', ''type'' \<mapsto> JString ''eip712'')) =
     Inl SyntaxError \<and>
   signTransaction_restricted (ex_env ex_hooks) (client_on (ex_chain\<lparr>chain_id := 1\<rparr>))
     ex_signer (ex_args_with (ex_transaction(''value'' \<mapsto> JString ''1e3''))) ex_validator False =
     ([], Inl SyntaxError)"
proof -
  let ?c = "ex_chain\<lparr>chain_id := 1\<rparr>"
  let ?rej = "rejecting_env (ExternalError ''InvalidEip712TransactionError'')"
  let ?bad = "ex_args_with (ex_transaction(''value'' \<mapsto> JString ''1e3''))"
  let ?run = "signTransaction (ex_env ex_hooks) (client_on ?c) ex_signer
                (ex_args_with ex_transaction) ex_validator False ex_hookData"
  let ?run' = "signTransaction_restricted (ex_env ex_hooks) (client_on ?c) ex_signer
                (ex_args_with ex_transaction) ex_validator False"
  let ?bare = "signTransaction (ex_env ex_hooks) bare_client ex_signer
                (ex_args_with ex_transaction) ex_validator False ex_hookData"
  let ?bare' = "signTransaction_restricted (ex_env ex_hooks) bare_client ex_signer
                (ex_args_with ex_transaction) ex_validator False"
  let ?rejected = "signTransaction ?rej (client_on ?c) ex_signer
                (ex_args_with ex_transaction) ex_validator False ex_hookData"
  let ?rejected' = "signTransaction_restricted ?rej (client_on ?c) ex_signer
                (ex_args_with ex_transaction) ex_validator False"
  let ?unparsed = "signTransaction (ex_env ex_hooks) (client_on ?c) ex_signer ?bad
                ex_validator False ex_hookData"
  let ?unparsed' = "signTransaction_restricted (ex_env ex_hooks) (client_on ?c) ex_signer ?bad
                ex_validator False"
  have declared: "resolve_chain (client_on ?c) (ex_args_with ex_transaction) = Js_value ?c"
    and declared_bad: "resolve_chain (client_on ?c) ?bad = Js_value ?c"
    and undeclared: "resolve_chain bare_client (ex_args_with ex_transaction) = Js_undefined"
    by (simp_all add: resolve_chain_def client_on_def bare_client_def ex_args_with_def)
  have unsupported: "chain_id ?c \<notin> set (VALID_CHAINS (ex_env ex_hooks))"
    "chain_id ?c \<notin> set ALLOWED_CHAINS" "chain_id ?c \<notin> set (VALID_CHAINS ?rej)"
    by (simp_all add: ex_env_def rejecting_env_def ALLOWED_CHAINS_def abstractTestnet_id_def)
  have account: "resolve_account (client_on ?c) (ex_args_with ex_transaction) =
                   Js_value (Account ex_smart_account)"
    and present: "\<not> no_account (Js_value (Account ex_smart_account))"
    and absent: "no_account (resolve_account bare_client (ex_args_with ex_transaction))"
    by (simp_all add: resolve_defs client_on_def bare_client_def ex_args_with_def)
  have entry: "entry_checks_pass (ex_env ex_hooks) (client_on ?c) (ex_args_with ex_transaction)"
    by (simp add: entry_checks_pass_def resolve_defs client_on_def ex_args_with_def ex_env_def)
  have entry': "entry_checks_pass_restricted (ex_env ex_hooks) (client_on ?c)
                  (ex_args_with ex_transaction)"
    by (simp add: entry_checks_pass_restricted_def resolve_defs client_on_def ex_args_with_def
        ex_env_def ex_normalize_value)
  have normalized: "normalize_value
      ((args_transaction (ex_args_with ex_transaction))(''type'' \<mapsto> JString ''eip712'')) =
      Inr ex_normalized"
    and normalized': "transformHexValues
      ((args_transaction (ex_args_with ex_transaction))(''type'' \<mapsto> JString ''eip712''))
      numeric_keys = ex_normalized"
    by (simp_all add: ex_args_with_def ex_normalize ex_normalize_value)
  have rejects: "assertEip712Request ?rej (parseAccount (Account ex_smart_account))
      (resolve_chain (client_on ?c) (ex_args_with ex_transaction)) ex_normalized =
      Some (ExternalError ''InvalidEip712TransactionError'')"
    by (simp add: rejecting_env_def)
  have unparsable: "normalize_value
      (ex_transaction(''value'' \<mapsto> JString ''1e3'', ''type'' \<mapsto> JString ''eip712'')) =
      Inl SyntaxError"
    by (simp add: normalize_value_def falsy_def bigint_defs get_prop_def)
  then have unparsable': "normalize_value
      ((args_transaction ?bad)(''type'' \<mapsto> JString ''eip712'')) = Inl SyntaxError"
    by (simp add: ex_args_with_def)
  have "?run = (fst ?run, snd ?run)" and "?run' = (fst ?run', snd ?run')"
    by simp_all
  from signTransaction_invalid_chain [OF this] declared unsupported entry entry'
  have first: "?run = ([], Inl (BaseError ''Invalid chain specified'')) \<and>
               ?run' = ([], Inl (BaseError ''Invalid chain specified''))"
    by (simp add: prod_eq_iff)
  have "?bare = (fst ?bare, snd ?bare)" and "?bare' = (fst ?bare', snd ?bare')"
    by simp_all
  from signTransaction_invalid_chain [OF this] undeclared absent normalized
  have second: "?bare = ([], Inl AccountNotFoundError) \<and>
                ?bare' = ([], Inl AccountNotFoundError)"
    by (simp add: prod_eq_iff)
  have "?rejected = (fst ?rejected, snd ?rejected)"
    and "?rejected' = (fst ?rejected', snd ?rejected')"
    by simp_all
  from signTransaction_invalid_chain [OF this] declared unsupported account present rejects
    normalized normalized'
  have third: "?rejected = ([], Inl (ExternalError ''InvalidEip712TransactionError'')) \<and>
               ?rejected' = ([], Inl (ExternalError ''InvalidEip712TransactionError''))"
    by (simp add: prod_eq_iff)
  have "?unparsed = (fst ?unparsed, snd ?unparsed)"
    and "?unparsed' = (fst ?unparsed', snd ?unparsed')"
    by simp_all
  from signTransaction_invalid_chain [OF this] declared_bad unsupported unparsable'
  have fourth: "?unparsed' = ([], Inl SyntaxError)"
    by (simp add: prod_eq_iff)
  from declared unsupported(1,2) entry entry' first absent second rejects third unparsable
    fourth
  show ?thesis by blast
qed

text \<open>
  Claim C5 as stated fails: with no chain declared and no account either, the account check
  of line 59 comes first and the error is \<open>AccountNotFoundError\<close>.
\<close>

theorem signTransaction_invalid_chain_counterexample:
  "resolve_chain bare_client (ex_args_with ex_transaction) = Js_undefined \<and>
   signTransaction (ex_env ex_hooks) bare_client ex_signer (ex_args_with ex_transaction)
     ex_validator False ex_hookData = ([], Inl AccountNotFoundError) \<and>
   AccountNotFoundError \<noteq> BaseError ''Invalid chain specified''"
  by (simp add: signTransaction_def resolve_defs step_defs Let_def bare_client_def
      ex_args_with_def)

text \<open>
  Claim C6, as amended. When the declared chain lacks \<open>getEip712Domain\<close> or the
  transaction serializer, the call fails without a single call to a collaborator, so no
  signature is produced. If the earlier checks pass and the chain is supported, the error
  is the missing \<open>getEip712Domain\<close> one when that function is missing, and the missing
  serializer one when the chain has \<open>getEip712Domain\<close> but no serializer.
\<close>

theorem signTransaction_missing_capability:
  assumes "signTransaction en cl sc ar validator u vhd = (tr, res)"
    and "resolve_chain cl ar = Js_value c"
    and "getEip712Domain c = None \<or> serializers_transaction c = None"
  shows "tr = [] \<and> (\<exists>e. res = Inl e) \<and>
         (entry_checks_pass en cl ar \<and> chain_id c \<in> set (VALID_CHAINS en) \<longrightarrow>
            (getEip712Domain c = None \<longrightarrow>
               res = Inl (BaseError ''`getEip712Domain` not found on chain.'')) \<and>
            (getEip712Domain c \<noteq> None \<longrightarrow>
               res = Inl (BaseError ''transaction serializer not found on chain.'')))"
  using assms
  by (auto simp: signTransaction_def step_defs Let_def entry_checks_pass_def
      split: if_splits js_opt.splits option.splits sum.splits prod.splits)

theorem signTransaction_missing_capability_witness:
  "resolve_chain (client_on (ex_chain\<lparr>serializers_transaction := None\<rparr>))
     (ex_args_with ex_transaction) = Js_value (ex_chain\<lparr>serializers_transaction := None\<rparr>) \<and>
   serializers_transaction (ex_chain\<lparr>serializers_transaction := None\<rparr>) = None \<and>
   getEip712Domain (ex_chain\<lparr>serializers_transaction := None\<rparr>) = Some ex_domain \<and>
   entry_checks_pass (ex_env ex_hooks)
     (client_on (ex_chain\<lparr>serializers_transaction := None\<rparr>)) (ex_args_with ex_transaction) \<and>
   chain_id (ex_chain\<lparr>serializers_transaction := None\<rparr>) \<in> set (VALID_CHAINS (ex_env ex_hooks)) \<and>
   signTransaction (ex_env ex_hooks) (client_on (ex_chain\<lparr>serializers_transaction := None\<rparr>))
     ex_signer (ex_args_with ex_transaction) ex_validator False ex_hookData =
     ([], Inl (BaseError ''transaction serializer not found on chain.'')) \<and>
   getEip712Domain (ex_chain\<lparr>getEip712Domain := None\<rparr>) = None \<and>
   signTransaction (ex_env ex_hooks) (client_on (ex_chain\<lparr>getEip712Domain := None\<rparr>))
     ex_signer (ex_args_with ex_transaction) ex_validator False ex_hookData =
     ([], Inl (BaseError ''`getEip712Domain` not found on chain.''))"
proof -
  let ?c = "ex_chain\<lparr>serializers_transaction := None\<rparr>"
  let ?d = "ex_chain\<lparr>getEip712Domain := None\<rparr>"
  let ?run = "signTransaction (ex_env ex_hooks) (client_on ?c) ex_signer
                (ex_args_with ex_transaction) ex_validator False ex_hookData"
  let ?run' = "signTransaction (ex_env ex_hooks) (client_on ?d) ex_signer
                (ex_args_with ex_transaction) ex_validator False ex_hookData"
  have run: "?run = (fst ?run, snd ?run)" and run': "?run' = (fst ?run', snd ?run')"
    by simp_all
  have declared: "resolve_chain (client_on ?c) (ex_args_with ex_transaction) = Js_value ?c"
    and declared': "resolve_chain (client_on ?d) (ex_args_with ex_transaction) = Js_value ?d"
    by (simp_all add: resolve_chain_def client_on_def ex_args_with_def)
  have lacks: "serializers_transaction ?c = None" and has: "getEip712Domain ?c = Some ex_domain"
    and lacks': "getEip712Domain ?d = None"
    by (simp_all add: ex_chain_def)
  have entry: "entry_checks_pass (ex_env ex_hooks) (client_on ?c) (ex_args_with ex_transaction)"
    and entry': "entry_checks_pass (ex_env ex_hooks) (client_on ?d)
                   (ex_args_with ex_transaction)"
    by (simp_all add: entry_checks_pass_def resolve_defs client_on_def ex_args_with_def
        ex_env_def)
  have supported: "chain_id ?c \<in> set (VALID_CHAINS (ex_env ex_hooks))"
    and supported': "chain_id ?d \<in> set (VALID_CHAINS (ex_env ex_hooks))"
    by (simp_all add: ex_env_def ex_chain_def)
  from signTransaction_missing_capability [OF run declared] lacks has entry supported
  have first: "?run = ([], Inl (BaseError ''transaction serializer not found on chain.''))"
    by (simp add: prod_eq_iff)
  from signTransaction_missing_capability [OF run' declared'] lacks' entry' supported'
  have second: "?run' = ([], Inl (BaseError ''`getEip712Domain` not found on chain.''))"
    by (simp add: prod_eq_iff)
  from declared lacks has entry supported first lacks' second show ?thesis by blast
qed

text \<open>
  Claim C6 as stated fails: a supported chain that lacks both functions lacks the
  serializer, yet the error is the one about \<open>getEip712Domain\<close>, which is tested first.
\<close>

theorem signTransaction_missing_capability_counterexample:
  "serializers_transaction (ex_chain\<lparr>getEip712Domain := None, serializers_transaction := None\<rparr>)
     = None \<and>
   signTransaction (ex_env ex_hooks)
     (client_on (ex_chain\<lparr>getEip712Domain := None, serializers_transaction := None\<rparr>))
     ex_signer (ex_args_with ex_transaction) ex_validator False ex_hookData =
     ([], Inl (BaseError ''`getEip712Domain` not found on chain.'')) \<and>
   BaseError ''`getEip712Domain` not found on chain.'' \<noteq>
     BaseError ''transaction serializer not found on chain.''"
  by (simp add: signTransaction_def resolve_defs step_defs Let_def client_on_def
      ex_args_with_def ex_env_def ex_chain_def)

section \<open>The request on its way to the serializer\<close>

lemma transformHexValues_frame:
  "k \<notin> set ks \<Longrightarrow> transformHexValues ob ks k = ob k"
  unfolding transformHexValues_def
  by (induction ks arbitrary: ob) (auto simp: coerce_field_def split: jsval.splits)

text \<open>
  Claim C9, as amended. Every field of the request other than the numeric fields and other
  than \<open>type\<close>, \<open>from\<close> and \<open>customSignature\<close> reaches the serializer as the caller gave
  it. \<open>type\<close> is set to \<open>eip712\<close> at entry; \<open>from\<close> and \<open>customSignature\<close> are set when
  the serializer's request is built. Apart from those two and \<open>chainId\<close>, every field
  reaches the serializer as it is after the normalisation at entry.
\<close>

theorem signTransaction_request_frame:
  assumes "signTransaction en cl sc ar validator u vhd = (tr, res)"
    and "SerializeTransaction rq sg \<in> set tr"
  shows "(\<forall>k. k \<notin> set numeric_keys \<and> k \<notin> {''type'', ''from'', ''customSignature''} \<longrightarrow>
            rq k = args_transaction ar k) \<and>
         (\<forall>k. k \<notin> {''chainId'', ''from'', ''customSignature''} \<longrightarrow>
            rq k = transformHexValues ((args_transaction ar)(''type'' \<mapsto> JString ''eip712''))
                     numeric_keys k) \<and>
         rq ''type'' = Some (JString ''eip712'')"
proof -
  let ?n = "transformHexValues ((args_transaction ar)(''type'' \<mapsto> JString ''eip712''))
              numeric_keys"
  obtain cid acc s where rq: "rq = serializer_request ?n cid acc s"
    using assms
    by (auto simp: signTransaction_def step_defs Let_def
        split: if_splits js_opt.splits option.splits sum.splits prod.splits)
  have frame: "\<And>k. k \<notin> set numeric_keys \<Longrightarrow>
                  ?n k = ((args_transaction ar)(''type'' \<mapsto> JString ''eip712'')) k"
    by (rule transformHexValues_frame)
  have "''type'' \<notin> set numeric_keys" by (simp add: numeric_keys_def)
  from frame [OF this] have type: "?n ''type'' = Some (JString ''eip712'')" by simp
  have chainId: "''chainId'' \<in> set numeric_keys" by (simp add: numeric_keys_def)
  from frame type chainId show ?thesis
    unfolding rq by (auto simp: serializer_request_def map_add_def split: option.splits)
qed

theorem signTransaction_request_frame_witness:
  "signTransaction (ex_env ex_hooks) ex_client ex_signer (ex_args_with ex_transaction)
     ex_validator True ex_hookData = (ex_trace_direct ex_normalized, Inr ''0x710x1b'') \<and>
   SerializeTransaction (serializer_request ex_normalized 11124 ex_signer_account ''0x1b'')
     zero_signature \<in> set (ex_trace_direct ex_normalized) \<and>
   ''to'' \<notin> set numeric_keys \<and>
   serializer_request ex_normalized 11124 ex_signer_account ''0x1b'' ''to'' =
     Some (JString ''0x7000000000000000000000000000000000000004'') \<and>
   args_transaction (ex_args_with ex_transaction) ''value'' = Some (JString ''0x5'') \<and>
   serializer_request ex_normalized 11124 ex_signer_account ''0x1b'' ''value'' =
     Some (JBigInt 5) \<and>
   serializer_request ex_normalized 11124 ex_signer_account ''0x1b'' ''type'' =
     Some (JString ''eip712'')"
proof -
  let ?rq = "serializer_request ex_normalized 11124 ex_signer_account ''0x1b''"
  have run: "signTransaction (ex_env ex_hooks) ex_client ex_signer
               (ex_args_with ex_transaction) ex_validator True ex_hookData =
             (ex_trace_direct ex_normalized, Inr ''0x710x1b'')"
    by (rule ex_run_direct [OF ex_normalize])
  have mem: "SerializeTransaction ?rq zero_signature \<in> set (ex_trace_direct ex_normalized)"
    by (simp add: ex_trace_direct_def)
  have key: "''to'' \<notin> set numeric_keys" by (simp add: numeric_keys_def)
  have given: "args_transaction (ex_args_with ex_transaction) ''to'' =
                 Some (JString ''0x7000000000000000000000000000000000000004'') \<and>
               args_transaction (ex_args_with ex_transaction) ''value'' =
                 Some (JString ''0x5'')"
    by (simp add: ex_args_with_def ex_transaction_def)
  have normalized:
    "transformHexValues
       ((args_transaction (ex_args_with ex_transaction))(''type'' \<mapsto> JString ''eip712''))
       numeric_keys ''value'' = Some (JBigInt 5)"
    by (simp add: ex_args_with_def ex_normalize ex_normalized_def)
  from signTransaction_request_frame [OF run mem] key given normalized
  have "?rq ''to'' = Some (JString ''0x7000000000000000000000000000000000000004'') \<and>
        ?rq ''value'' = Some (JBigInt 5) \<and> ?rq ''type'' = Some (JString ''eip712'')"
    by simp
  with run mem key given show ?thesis by blast
qed

text \<open>
  Claim C9 as stated fails: \<open>customSignature\<close> is not a numeric field, and a value the
  caller puts there does not reach the serializer; the composed signature does.
\<close>

theorem signTransaction_request_frame_counterexample:
  "''customSignature'' \<notin> set numeric_keys \<and>
   args_transaction
     (ex_args_with (ex_transaction(''customSignature'' \<mapsto> JString ''0xdead'')))
     ''customSignature'' = Some (JString ''0xdead'') \<and>
   SerializeTransaction
     (serializer_request
        (transformHexValues
           (ex_transaction(''customSignature'' \<mapsto> JString ''0xdead'',
                           ''type'' \<mapsto> JString ''eip712''))
           numeric_keys)
        11124 ex_signer_account ''0x1b'')
     zero_signature
     \<in> set (fst (signTransaction (ex_env ex_hooks) ex_client ex_signer
                   (ex_args_with (ex_transaction(''customSignature'' \<mapsto> JString ''0xdead'')))
                   ex_validator True ex_hookData)) \<and>
   serializer_request
     (transformHexValues
        (ex_transaction(''customSignature'' \<mapsto> JString ''0xdead'',
                        ''type'' \<mapsto> JString ''eip712''))
        numeric_keys)
     11124 ex_signer_account ''0x1b'' ''customSignature'' = Some (JString ''0x1b'') \<and>
   JString ''0x1b'' \<noteq> JString ''0xdead''"
proof -
  have "''customSignature'' \<notin> set numeric_keys"
    by (simp add: numeric_keys_def)
  moreover have "args_transaction
     (ex_args_with (ex_transaction(''customSignature'' \<mapsto> JString ''0xdead'')))
     ''customSignature'' = Some (JString ''0xdead'')"
    by (simp add: ex_args_with_def)
  moreover have "SerializeTransaction
     (serializer_request
        (transformHexValues
           (ex_transaction(''customSignature'' \<mapsto> JString ''0xdead'',
                           ''type'' \<mapsto> JString ''eip712''))
           numeric_keys)
        11124 ex_signer_account ''0x1b'')
     zero_signature
     \<in> set (fst (signTransaction (ex_env ex_hooks) ex_client ex_signer
                   (ex_args_with (ex_transaction(''customSignature'' \<mapsto> JString ''0xdead'')))
                   ex_validator True ex_hookData))"
    by (simp add: ex_run_direct [OF refl] ex_trace_direct_def)
  moreover have "serializer_request
     (transformHexValues
        (ex_transaction(''customSignature'' \<mapsto> JString ''0xdead'',
                        ''type'' \<mapsto> JString ''eip712''))
        numeric_keys)
     11124 ex_signer_account ''0x1b'' ''customSignature'' = Some (JString ''0x1b'')"
    by (simp add: serializer_request_def)
  ultimately show ?thesis by simp
qed

section \<open>The chain id\<close>

text \<open>
  The request from which the domain is built always carries the chain id that the call has
  just fetched: \<open>chainId\<close> is written after the spread of the request.
\<close>

lemma signTransaction_domain_chainId:
  assumes "signTransaction en cl sc ar validator u vhd = (tr, res)"
    and "GetEip712Domain rq \<in> set tr"
  shows "\<exists>live. GetChainId \<in> set tr \<and> getChainId en = Inr live \<and>
           rq ''chainId'' = Some (JNumber live)"
  using assms
  by (auto simp: signTransaction_def step_defs Let_def domain_request_def
      split: if_splits js_opt.splits option.splits sum.splits prod.splits)

text \<open>
  In the serializer's request \<open>chainId\<close> is written before the spread, so the fetched id
  is what the serializer gets when the normalised request has no \<open>chainId\<close> field, and
  the request's own field is what it gets otherwise.
\<close>

lemma signTransaction_serializer_chainId:
  assumes "signTransaction en cl sc ar validator u vhd = (tr, res)"
    and "SerializeTransaction rq sg \<in> set tr"
  shows "\<exists>live. GetChainId \<in> set tr \<and> getChainId en = Inr live \<and>
           rq ''chainId'' =
             (case transformHexValues
                     ((args_transaction ar)(''type'' \<mapsto> JString ''eip712'')) numeric_keys
                     ''chainId'' of
                None \<Rightarrow> Some (JNumber live)
              | Some x \<Rightarrow> Some x)"
  using assms
  by (auto simp: signTransaction_def step_defs Let_def serializer_request_def map_add_def
      split: if_splits js_opt.splits option.splits sum.splits prod.splits)

lemma ex_normalize_chainId:
  "transformHexValues
     (ex_transaction(''chainId'' \<mapsto> JNumber 1, ''type'' \<mapsto> JString ''eip712''))
     numeric_keys = ex_normalized(''chainId'' \<mapsto> JNumber 1)"
  by (simp add: transformHexValues_def numeric_keys_def coerce_field_def get_prop_def
      ex_transaction_def ex_normalized_def hex_defs fun_upd_twist)

text \<open>
  Claim C3, evaluated where it fails. The live chain id and the id of the declared chain
  are both 11124 and the request carries \<open>chainId: 1\<close>. The call succeeds. The domain is
  built, and signed, with chain id 11124, while the serializer is handed chain id 1.
\<close>

theorem signTransaction_request_chainId_reaches_serializer:
  "getChainId (ex_env ex_hooks) = Inr 11124 \<and> chain_id ex_chain = 11124 \<and>
   signTransaction (ex_env ex_hooks) ex_client ex_signer
     (ex_args_with (ex_transaction(''chainId'' \<mapsto> JNumber 1))) ex_validator False ex_hookData =
     (ex_trace_delegated (ex_normalized(''chainId'' \<mapsto> JNumber 1)) [''0x1234'', ''0x''],
      Inr (''0x71'' @ ex_composed [''0x1234'', ''0x''])) \<and>
   GetEip712Domain
     (domain_request (ex_normalized(''chainId'' \<mapsto> JNumber 1)) 11124 ex_smart_account)
     \<in> set (ex_trace_delegated (ex_normalized(''chainId'' \<mapsto> JNumber 1)) [''0x1234'', ''0x'']) \<and>
   domain_request (ex_normalized(''chainId'' \<mapsto> JNumber 1)) 11124 ex_smart_account
     ''chainId'' = Some (JNumber 11124) \<and>
   SerializeTransaction
     (serializer_request (ex_normalized(''chainId'' \<mapsto> JNumber 1)) 11124 ex_smart_account
        (ex_composed [''0x1234'', ''0x'']))
     zero_signature
     \<in> set (ex_trace_delegated (ex_normalized(''chainId'' \<mapsto> JNumber 1)) [''0x1234'', ''0x'']) \<and>
   serializer_request (ex_normalized(''chainId'' \<mapsto> JNumber 1)) 11124 ex_smart_account
     (ex_composed [''0x1234'', ''0x'']) ''chainId'' = Some (JNumber 1)"
proof -
  have "signTransaction (ex_env ex_hooks) ex_client ex_signer
     (ex_args_with (ex_transaction(''chainId'' \<mapsto> JNumber 1))) ex_validator False ex_hookData =
     (ex_trace_delegated (ex_normalized(''chainId'' \<mapsto> JNumber 1)) [''0x1234'', ''0x''],
      Inr (''0x71'' @ ex_composed [''0x1234'', ''0x'']))"
    using ex_run_delegated [OF ex_normalize_chainId, of ex_hooks ex_hookData]
    by (simp add: ex_hook_payloads)
  moreover have "getChainId (ex_env ex_hooks) = Inr 11124 \<and> chain_id ex_chain = 11124"
    by (simp add: ex_env_def ex_chain_def)
  moreover have "domain_request (ex_normalized(''chainId'' \<mapsto> JNumber 1)) 11124
      ex_smart_account ''chainId'' = Some (JNumber 11124)"
    by (simp add: domain_request_def)
  moreover have "serializer_request (ex_normalized(''chainId'' \<mapsto> JNumber 1)) 11124
      ex_smart_account (ex_composed [''0x1234'', ''0x'']) ''chainId'' = Some (JNumber 1)"
    by (simp add: serializer_request_def)
  ultimately show ?thesis by (simp add: ex_trace_delegated_def)
qed

section \<open>The restricted variant against the configurable one\<close>

subsection \<open>The concrete encoder and serializer are injective\<close>

lemma tally_append_eq:
  "tally a @ x = tally b @ y \<Longrightarrow> length a = length b \<and> x = y"
proof (induction a arbitrary: b)
  case Nil
  then show ?case by (cases b) auto
next
  case (Cons c cs)
  then show ?case by (cases b) auto
qed

lemma ex_frame_append_eq:
  assumes "ex_frame a @ x = ex_frame b @ y"
  shows "a = b \<and> x = y"
proof -
  from assms have "tally a @ (a @ x) = tally b @ (b @ y)"
    by (simp add: ex_frame_def)
  then have "length a = length b \<and> a @ x = b @ y"
    by (rule tally_append_eq)
  then show ?thesis by auto
qed

lemma ex_frame_not_Nil: "ex_frame a \<noteq> []"
  by (cases a) (simp_all add: ex_frame_def)

lemma concat_ex_frame_inj:
  "concat (map ex_frame hs) = concat (map ex_frame hs') \<Longrightarrow> hs = hs'"
proof (induction hs arbitrary: hs')
  case Nil
  then show ?case by (cases hs') (simp_all add: ex_frame_not_Nil)
next
  case (Cons h hs)
  show ?case
  proof (cases hs')
    case Nil
    with Cons.prems show ?thesis by (simp add: ex_frame_not_Nil)
  next
    case (Cons h' t')
    with Cons.prems have "ex_frame h @ concat (map ex_frame hs) = ex_frame h' @ concat (map ex_frame t')"
      by simp
    then have "h = h' \<and> concat (map ex_frame hs) = concat (map ex_frame t')"
      by (rule ex_frame_append_eq)
    with Cons.IH Cons show ?thesis by simp
  qed
qed

lemma ex_encode_Inr:
  "ex_encode tys v = Inr s \<Longrightarrow>
     \<exists>b a hs. v = [V_bytes b, V_address a, V_bytes_array hs] \<and>
       s = ''0x'' @ ex_frame b @ ex_frame a @ concat (map ex_frame hs)"
  by (auto simp: ex_encode_def split: list.splits abi_val.splits if_splits)

lemma ex_encode_inj:
  assumes "ex_encode tys v = Inr s" and "ex_encode tys' v' = Inr s"
  shows "v = v'"
proof -
  from assms(1) obtain b a hs where v: "v = [V_bytes b, V_address a, V_bytes_array hs]"
    and s: "s = ''0x'' @ ex_frame b @ ex_frame a @ concat (map ex_frame hs)"
    by (blast dest: ex_encode_Inr)
  from assms(2) obtain b' a' hs' where v': "v' = [V_bytes b', V_address a', V_bytes_array hs']"
    and s': "s = ''0x'' @ ex_frame b' @ ex_frame a' @ concat (map ex_frame hs')"
    by (blast dest: ex_encode_Inr)
  from s s' have "ex_frame b @ (ex_frame a @ concat (map ex_frame hs)) =
                  ex_frame b' @ (ex_frame a' @ concat (map ex_frame hs'))"
    by simp
  then have b: "b = b'" and "ex_frame a @ concat (map ex_frame hs) = ex_frame a' @ concat (map ex_frame hs')"
    by (auto dest: ex_frame_append_eq)
  then have a: "a = a'" and "concat (map ex_frame hs) = concat (map ex_frame hs')"
    by (auto dest: ex_frame_append_eq)
  then have "hs = hs'" by (auto dest: concat_ex_frame_inj)
  with v v' a b show ?thesis by simp
qed

lemma ex_serialize_inj:
  assumes "ex_serialize q z = Inr s" and "ex_serialize q' z' = Inr s"
  shows "q ''customSignature'' = q' ''customSignature''"
  using assms
  by (auto simp: ex_serialize_def split: option.splits jsval.splits)

lemma serializer_request_customSignature:
  "serializer_request n cid acc s =
     (serializer_request n cid acc x)(''customSignature'' \<mapsto> JString s)"
  by (rule ext) (simp add: serializer_request_def)

text \<open>
  Claim C10, as amended. In delegated mode the restricted variant never reads the hook
  registry, and any call it makes to the encoder carries the empty payload sequence; a
  successful call makes that call. Take the same inputs for both variants, on a chain of
  the restricted variant's allow-list, with both normalisations giving the same request,
  and let the configurable variant have read the hook list. If that list is empty, the two
  results are equal. Conversely, if the two results are equal and at least one of the calls
  succeeds, the list is empty, for collaborators that keep the payloads apart: an encoder
  that never encodes a non-empty payload array like the empty one, for the same raw
  signature and validator, and a serializer that never answers alike for two requests
  that differ only in carrying two different such encodings as \<open>customSignature\<close>.
\<close>

theorem restricted_variant_empty_hooks:
  assumes "signTransaction_restricted en cl sc ar validator False = (tr', res')"
    and "signTransaction en cl sc ar validator False vhd = (tr, res)"
  shows "(\<forall>rq. ReadContract rq \<notin> set tr') \<and>
         (\<forall>tys vals. EncodeAbiParameters tys vals \<in> set tr' \<longrightarrow>
            (\<exists>raw. vals = [V_bytes raw, V_address validator, V_bytes_array []])) \<and>
         ((\<exists>out. res' = Inr out) \<longrightarrow>
            (\<exists>raw. EncodeAbiParameters signature_types
                      [V_bytes raw, V_address validator, V_bytes_array []] \<in> set tr')) \<and>
         (resolve_chain cl ar = Js_value c \<and> chain_id c \<in> set ALLOWED_CHAINS \<and>
          normalize_value ((args_transaction ar)(''type'' \<mapsto> JString ''eip712'')) =
            Inr (transformHexValues ((args_transaction ar)(''type'' \<mapsto> JString ''eip712''))
                   numeric_keys) \<and>
          ReadContract rr \<in> set tr \<and> readContract en rr = Inr hooks \<longrightarrow>
            (hooks = [] \<longrightarrow> res' = res) \<and>
            (((\<exists>out. res = Inr out) \<or> (\<exists>out. res' = Inr out)) \<and> res' = res \<and>
             (\<forall>raw hs s. encodeAbiParameters en signature_types
                            [V_bytes raw, V_address validator, V_bytes_array hs] = Inr s \<and>
                          encodeAbiParameters en signature_types
                            [V_bytes raw, V_address validator, V_bytes_array []] = Inr s \<longrightarrow>
                          hs = []) \<and>
             (\<forall>serialize q raw hs s s' out. serializers_transaction c = Some serialize \<and>
                        encodeAbiParameters en signature_types
                          [V_bytes raw, V_address validator, V_bytes_array hs] = Inr s \<and>
                        encodeAbiParameters en signature_types
                          [V_bytes raw, V_address validator, V_bytes_array []] = Inr s' \<and>
                        serialize (q(''customSignature'' \<mapsto> JString s)) zero_signature =
                          Inr out \<and>
                        serialize (q(''customSignature'' \<mapsto> JString s')) zero_signature =
                          Inr out \<longrightarrow>
                        s = s') \<longrightarrow>
             hooks = []))"
proof -
  have no_read: "\<forall>rq. ReadContract rq \<notin> set tr'"
    using assms(1)
    by (auto simp: signTransaction_restricted_def step_defs Let_def
        split: if_splits js_opt.splits option.splits sum.splits prod.splits)
  have empty: "\<forall>tys vals. EncodeAbiParameters tys vals \<in> set tr' \<longrightarrow>
            (\<exists>raw. vals = [V_bytes raw, V_address validator, V_bytes_array []])"
    using assms(1)
    by (auto simp: signTransaction_restricted_def step_defs Let_def
        split: if_splits js_opt.splits option.splits sum.splits prod.splits)
  have called: "(\<exists>out. res' = Inr out) \<longrightarrow>
            (\<exists>raw. EncodeAbiParameters signature_types
                      [V_bytes raw, V_address validator, V_bytes_array []] \<in> set tr')"
    using assms(1)
    by (auto simp: signTransaction_restricted_def step_defs Let_def
        split: if_splits js_opt.splits option.splits sum.splits prod.splits)
  have equal: "res' = res"
    if "resolve_chain cl ar = Js_value c" "chain_id c \<in> set ALLOWED_CHAINS"
      "normalize_value ((args_transaction ar)(''type'' \<mapsto> JString ''eip712'')) =
            Inr (transformHexValues ((args_transaction ar)(''type'' \<mapsto> JString ''eip712''))
                   numeric_keys)"
      "ReadContract rr \<in> set tr" "readContract en rr = Inr hooks" "hooks = []"
    using assms that
    by (auto simp: signTransaction_restricted_def signTransaction_def step_defs Let_def
        hookData_of_def
        split: if_splits js_opt.splits option.splits sum.splits prod.splits)
  have only_if: "hooks = []"
    if "resolve_chain cl ar = Js_value c" "chain_id c \<in> set ALLOWED_CHAINS"
      "normalize_value ((args_transaction ar)(''type'' \<mapsto> JString ''eip712'')) =
            Inr (transformHexValues ((args_transaction ar)(''type'' \<mapsto> JString ''eip712''))
                   numeric_keys)"
      "ReadContract rr \<in> set tr" "readContract en rr = Inr hooks"
      "res = Inr out" "res' = Inr out"
      "\<forall>raw hs s. encodeAbiParameters en signature_types
                            [V_bytes raw, V_address validator, V_bytes_array hs] = Inr s \<and>
                          encodeAbiParameters en signature_types
                            [V_bytes raw, V_address validator, V_bytes_array []] = Inr s \<longrightarrow>
                          hs = []"
      "\<forall>serialize q raw hs s s' out. serializers_transaction c = Some serialize \<and>
                        encodeAbiParameters en signature_types
                          [V_bytes raw, V_address validator, V_bytes_array hs] = Inr s \<and>
                        encodeAbiParameters en signature_types
                          [V_bytes raw, V_address validator, V_bytes_array []] = Inr s' \<and>
                        serialize (q(''customSignature'' \<mapsto> JString s)) zero_signature =
                          Inr out \<and>
                        serialize (q(''customSignature'' \<mapsto> JString s')) zero_signature =
                          Inr out \<longrightarrow>
                        s = s'"
    for out
  proof -
    let ?n = "transformHexValues ((args_transaction ar)(''type'' \<mapsto> JString ''eip712''))
                numeric_keys"
    from assms(2) that(1,4,5,6) obtain f g cid a s raw where
      c1: "serializers_transaction c = Some f" "getEip712Domain c = Some g"
        "getChainId en = Inr cid" "resolve_account cl ar = Js_value a"
        "f (serializer_request ?n cid (parseAccount a) s) zero_signature = Inr out"
        "\<exists>d. g (domain_request ?n cid (parseAccount a)) = Inr d \<and>
             signTypedData en d (signer_account sc) = Inr raw"
        "encodeAbiParameters en signature_types
           [V_bytes raw, V_address validator, V_bytes_array (hookData_of vhd hooks)] = Inr s"
      by (auto simp: signTransaction_def step_defs Let_def
          split: if_splits js_opt.splits option.splits sum.splits prod.splits)
    from assms(1) that(1,3,7) c1(1,2,3,4) obtain s' raw' where
      c2: "f (serializer_request ?n cid (parseAccount a) s') zero_signature = Inr out"
        "\<exists>d. g (domain_request ?n cid (parseAccount a)) = Inr d \<and>
             signTypedData en d (signer_account sc) = Inr raw'"
        "encodeAbiParameters en signature_types
           [V_bytes raw', V_address validator, V_bytes_array []] = Inr s'"
      by (auto simp: signTransaction_restricted_def step_defs Let_def
          split: if_splits js_opt.splits option.splits sum.splits prod.splits)
    from c1(6) c2(2) have raw: "raw' = raw" by auto
    let ?q = "serializer_request ?n cid (parseAccount a) []"
    from c1(5) have "f (?q(''customSignature'' \<mapsto> JString s)) zero_signature = Inr out"
      using serializer_request_customSignature [of ?n cid "parseAccount a" s "[]"] by simp
    moreover from c2(1)
    have "f (?q(''customSignature'' \<mapsto> JString s')) zero_signature = Inr out"
      using serializer_request_customSignature [of ?n cid "parseAccount a" s' "[]"] by simp
    ultimately have "s = s'" using that(9) c1(1,7) c2(3) raw by blast
    with c1(7) c2(3) raw that(8) have "hookData_of vhd hooks = []" by blast
    then show ?thesis by (simp add: hookData_of_def)
  qed
  have converse: "hooks = []"
    if "resolve_chain cl ar = Js_value c" "chain_id c \<in> set ALLOWED_CHAINS"
      "normalize_value ((args_transaction ar)(''type'' \<mapsto> JString ''eip712'')) =
            Inr (transformHexValues ((args_transaction ar)(''type'' \<mapsto> JString ''eip712''))
                   numeric_keys)"
      "ReadContract rr \<in> set tr" "readContract en rr = Inr hooks"
      "(\<exists>out. res = Inr out) \<or> (\<exists>out. res' = Inr out)" "res' = res"
      "\<forall>raw hs s. encodeAbiParameters en signature_types
                            [V_bytes raw, V_address validator, V_bytes_array hs] = Inr s \<and>
                          encodeAbiParameters en signature_types
                            [V_bytes raw, V_address validator, V_bytes_array []] = Inr s \<longrightarrow>
                          hs = []"
      "\<forall>serialize q raw hs s s' out. serializers_transaction c = Some serialize \<and>
                        encodeAbiParameters en signature_types
                          [V_bytes raw, V_address validator, V_bytes_array hs] = Inr s \<and>
                        encodeAbiParameters en signature_types
                          [V_bytes raw, V_address validator, V_bytes_array []] = Inr s' \<and>
                        serialize (q(''customSignature'' \<mapsto> JString s)) zero_signature =
                          Inr out \<and>
                        serialize (q(''customSignature'' \<mapsto> JString s')) zero_signature =
                          Inr out \<longrightarrow>
                        s = s'"
  proof -
    from that(6,7) obtain out where out: "res = Inr out" "res' = Inr out" by auto
    from only_if [OF that(1-5) out that(8,9)] show ?thesis .
  qed
  from no_read empty called equal converse show ?thesis by blast
qed


theorem restricted_variant_empty_hooks_witness:
  "signTransaction_restricted (ex_env []) ex_client ex_signer (ex_args_with ex_transaction)
     ex_validator False =
     (ex_trace_restricted ex_normalized, Inr (''0x71'' @ ex_composed [])) \<and>
   signTransaction (ex_env []) ex_client ex_signer (ex_args_with ex_transaction)
     ex_validator False ex_hookData =
     (ex_trace_delegated ex_normalized [], Inr (''0x71'' @ ex_composed [])) \<and>
   resolve_chain ex_client (ex_args_with ex_transaction) = Js_value ex_chain \<and>
   chain_id ex_chain \<in> set ALLOWED_CHAINS \<and>
   normalize_value
     ((args_transaction (ex_args_with ex_transaction))(''type'' \<mapsto> JString ''eip712'')) =
     Inr (transformHexValues
            ((args_transaction (ex_args_with ex_transaction))(''type'' \<mapsto> JString ''eip712''))
            numeric_keys) \<and>
   ReadContract ex_read \<in> set (ex_trace_delegated ex_normalized []) \<and>
   readContract (ex_env []) ex_read = Inr [] \<and>
   (\<forall>rq. ReadContract rq \<notin> set (ex_trace_restricted ex_normalized)) \<and>
   EncodeAbiParameters signature_types
     [V_bytes ''0x1b'', V_address ex_validator, V_bytes_array []]
     \<in> set (ex_trace_restricted ex_normalized)"
proof -
  let ?res = "Inr (''0x71'' @ ex_composed []) :: error + string"
  have run': "signTransaction_restricted (ex_env []) ex_client ex_signer
                (ex_args_with ex_transaction) ex_validator False =
              (ex_trace_restricted ex_normalized, ?res)"
    by (rule ex_run_restricted [OF ex_normalize_value])
  have run: "signTransaction (ex_env []) ex_client ex_signer (ex_args_with ex_transaction)
               ex_validator False ex_hookData =
             (ex_trace_delegated ex_normalized [], ?res)"
    using ex_run_delegated [OF ex_normalize, of "[]" ex_hookData]
    by (simp add: hookData_of_def)
  have declared: "resolve_chain ex_client (ex_args_with ex_transaction) = Js_value ex_chain"
    by (simp add: resolve_chain_def ex_client_def ex_args_with_def)
  have allowed: "chain_id ex_chain \<in> set ALLOWED_CHAINS"
    by (simp add: ex_chain_def ALLOWED_CHAINS_def abstractTestnet_id_def)
  have same: "normalize_value
     ((args_transaction (ex_args_with ex_transaction))(''type'' \<mapsto> JString ''eip712'')) =
     Inr (transformHexValues
            ((args_transaction (ex_args_with ex_transaction))(''type'' \<mapsto> JString ''eip712''))
            numeric_keys)"
    by (simp add: ex_args_with_def ex_normalize ex_normalize_value)
  have read: "ReadContract ex_read \<in> set (ex_trace_delegated ex_normalized [])"
    by (simp add: ex_trace_delegated_def)
  have live: "readContract (ex_env []) ex_read = Inr []"
    by (simp add: ex_env_def)
  have enc: "\<forall>raw hs s. encodeAbiParameters (ex_env []) signature_types
                            [V_bytes raw, V_address ex_validator, V_bytes_array hs] = Inr s \<and>
                          encodeAbiParameters (ex_env []) signature_types
                            [V_bytes raw, V_address ex_validator, V_bytes_array []] = Inr s \<longrightarrow>
                          hs = []"
    by (auto simp: ex_env_def dest: ex_encode_inj)
  have ser: "\<forall>serialize q raw hs s s' out.
                        serializers_transaction ex_chain = Some serialize \<and>
                        encodeAbiParameters (ex_env []) signature_types
                          [V_bytes raw, V_address ex_validator, V_bytes_array hs] = Inr s \<and>
                        encodeAbiParameters (ex_env []) signature_types
                          [V_bytes raw, V_address ex_validator, V_bytes_array []] = Inr s' \<and>
                        serialize (q(''customSignature'' \<mapsto> JString s)) zero_signature =
                          Inr out \<and>
                        serialize (q(''customSignature'' \<mapsto> JString s')) zero_signature =
                          Inr out \<longrightarrow>
                        s = s'"
    by (auto simp: ex_chain_def dest: ex_serialize_inj)
  from restricted_variant_empty_hooks [OF run' run, of ex_chain ex_read "[]"]
    declared allowed same read live enc ser
  have "(\<forall>rq. ReadContract rq \<notin> set (ex_trace_restricted ex_normalized)) \<and>
        (\<exists>raw. EncodeAbiParameters signature_types
                  [V_bytes raw, V_address ex_validator, V_bytes_array []]
                \<in> set (ex_trace_restricted ex_normalized))"
    by blast
  then have "(\<forall>rq. ReadContract rq \<notin> set (ex_trace_restricted ex_normalized)) \<and>
        EncodeAbiParameters signature_types
          [V_bytes ''0x1b'', V_address ex_validator, V_bytes_array []]
          \<in> set (ex_trace_restricted ex_normalized)"
    by (auto simp: ex_trace_restricted_def)
  with run' run declared allowed same read live show ?thesis by blast
qed

text \<open>
  Claim C10 as stated fails where both calls fail alike. With a validator address that the
  encoder rejects, the configurable variant reads a hook list of two entries, and both
  variants raise the encoder's error: equal outputs, and a list that is not empty.
\<close>

theorem restricted_variant_empty_hooks_counterexample:
  "resolve_chain ex_client (ex_args_with ex_transaction) = Js_value ex_chain \<and>
   chain_id ex_chain \<in> set ALLOWED_CHAINS \<and>
   normalize_value
     ((args_transaction (ex_args_with ex_transaction))(''type'' \<mapsto> JString ''eip712'')) =
     Inr (transformHexValues
            ((args_transaction (ex_args_with ex_transaction))(''type'' \<mapsto> JString ''eip712''))
            numeric_keys) \<and>
   ReadContract ex_read
     \<in> set (fst (signTransaction (ex_env ex_hooks) ex_client ex_signer
                   (ex_args_with ex_transaction) ''0x12'' False ex_hookData)) \<and>
   readContract (ex_env ex_hooks) ex_read = Inr ex_hooks \<and>
   ex_hooks \<noteq> [] \<and>
   snd (signTransaction (ex_env ex_hooks) ex_client ex_signer
          (ex_args_with ex_transaction) ''0x12'' False ex_hookData) =
     Inl (ExternalError ''InvalidAddressError'') \<and>
   snd (signTransaction_restricted (ex_env ex_hooks) ex_client ex_signer
          (ex_args_with ex_transaction) ''0x12'' False) =
     Inl (ExternalError ''InvalidAddressError'')"
proof -
  have "resolve_chain ex_client (ex_args_with ex_transaction) = Js_value ex_chain"
    by (simp add: resolve_chain_def ex_client_def ex_args_with_def)
  moreover have "chain_id ex_chain \<in> set ALLOWED_CHAINS"
    by (simp add: ex_chain_def ALLOWED_CHAINS_def abstractTestnet_id_def)
  moreover have "normalize_value
     ((args_transaction (ex_args_with ex_transaction))(''type'' \<mapsto> JString ''eip712'')) =
     Inr (transformHexValues
            ((args_transaction (ex_args_with ex_transaction))(''type'' \<mapsto> JString ''eip712''))
            numeric_keys)"
    by (simp add: ex_args_with_def ex_normalize ex_normalize_value)
  moreover have "signTransaction (ex_env ex_hooks) ex_client ex_signer
                   (ex_args_with ex_transaction) ''0x12'' False ex_hookData =
     ([GetChainId,
       GetEip712Domain (domain_request ex_normalized 11124 ex_smart_account),
       SignTypedData (domain_request ex_normalized 11124 ex_smart_account) ex_signer_account,
       ReadContract ex_read,
       EncodeAbiParameters signature_types
         [V_bytes ''0x1b'', V_address ''0x12'', V_bytes_array [''0x1234'', ''0x'']]],
      Inl (ExternalError ''InvalidAddressError''))"
    by (simp add: signTransaction_def resolve_defs step_defs Let_def ex_network_defs
        ex_normalize ex_hook_payloads)
  moreover have "snd (signTransaction_restricted (ex_env ex_hooks) ex_client ex_signer
          (ex_args_with ex_transaction) ''0x12'' False) =
     Inl (ExternalError ''InvalidAddressError'')"
    by (simp add: signTransaction_restricted_def resolve_defs step_defs Let_def ex_network_defs
        ex_normalize_value ALLOWED_CHAINS_def abstractTestnet_id_def)
  moreover have "readContract (ex_env ex_hooks) ex_read = Inr ex_hooks \<and> ex_hooks \<noteq> []"
    by (simp add: ex_env_def ex_hooks_def)
  ultimately show ?thesis by simp
qed

end
